theory Spec2Isabelle
  imports Main
begin

section \<open>JavaScript values, objects and strings\<close>

text \<open>
  Strings are lists of characters; a \<^typ>\<open>char\<close> stands for one code point below 256, so
  \<^const>\<open>length\<close> is the number of characters of the JavaScript string.
\<close>

datatype js_error =
    TypeError string
  | WriteError string
  | ConstraintError string
  | QueryError string
  | InvalidChar string

text \<open>Primitive values that the handlers store in records and in the session.\<close>

datatype prim = PStr string | PNum nat | PNull

text \<open>The result of reading a property \<open>obj[key]\<close>.\<close>

datatype 'r jsval = JSUndefined | JSNative string | JSPrim prim | JSRecord 'r

fun prim_truthy :: "prim \<Rightarrow> bool" where
  "prim_truthy (PStr s) = (s \<noteq> [])"
| "prim_truthy (PNum n) = (n \<noteq> 0)"
| "prim_truthy PNull = False"

fun js_truthy :: "'r jsval \<Rightarrow> bool" where
  "js_truthy JSUndefined = False"
| "js_truthy (JSNative n) = True"
| "js_truthy (JSPrim p) = prim_truthy p"
| "js_truthy (JSRecord r) = True"

text \<open>
  The stores of the examples are plain object literals (\<open>{}\<close>), so a property read that
  finds no own property continues in \<open>Object.prototype\<close>. These are its property names;
  every one of them holds a function, except \<open>__proto__\<close>, an accessor that yields the
  prototype object. All of them are truthy.
\<close>

definition object_prototype_names :: "string list" where
  "object_prototype_names =
     [''constructor'', ''__defineGetter__'', ''__defineSetter__'', ''hasOwnProperty'',
      ''__lookupGetter__'', ''__lookupSetter__'', ''isPrototypeOf'', ''propertyIsEnumerable'',
      ''toString'', ''valueOf'', ''__proto__'', ''toLocaleString'']"

definition object_prototype_get :: "string \<Rightarrow> 'r jsval" where
  "object_prototype_get k =
     (if k \<in> set object_prototype_names then JSNative k else JSUndefined)"

text \<open>
  A plain object whose values are records of type \<open>'r\<close>: its own properties, and its
  prototype, which is \<open>Object.prototype\<close> (\<open>None\<close>) until an assignment to \<open>__proto__\<close>
  replaces it by a record (whose own prototype is \<open>Object.prototype\<close>).
\<close>

record 'r jsobject =
  own :: "string \<rightharpoonup> 'r"
  proto :: "'r option"

definition empty_object :: "'r jsobject" where
  "empty_object = \<lparr>own = Map.empty, proto = None\<rparr>"

text \<open>\<open>obj[k]\<close>; \<open>props\<close> reads the properties of a record that serves as prototype.\<close>

definition js_get :: "('r \<Rightarrow> string \<rightharpoonup> prim) \<Rightarrow> 'r jsobject \<Rightarrow> string \<Rightarrow> 'r jsval" where
  "js_get props obj k =
     (case own obj k of
        Some r \<Rightarrow> JSRecord r
      | None \<Rightarrow>
          (case proto obj of
             None \<Rightarrow> object_prototype_get k
           | Some p \<Rightarrow>
               (if k = ''__proto__'' then JSRecord p
                else case props p k of
                       Some v \<Rightarrow> JSPrim v
                     | None \<Rightarrow> object_prototype_get k)))"

text \<open>
  \<open>obj[k] = r\<close> with a record \<open>r\<close>: an ordinary assignment creates or overwrites the own
  property, but \<open>__proto__\<close> is a setter inherited from \<open>Object.prototype\<close> that replaces
  the prototype instead (unless the object already has an own property of that name).
\<close>

definition js_set :: "'r jsobject \<Rightarrow> string \<Rightarrow> 'r \<Rightarrow> 'r jsobject" where
  "js_set obj k r =
     (if k = ''__proto__'' \<and> own obj k = None then obj\<lparr>proto := Some r\<rparr>
      else obj\<lparr>own := (own obj)(k \<mapsto> r)\<rparr>)"

subsection \<open>Strings\<close>

text \<open>\<open>String.prototype.toLowerCase\<close> on the code points below 256.\<close>

definition lower_char :: "char \<Rightarrow> char" where
  "lower_char c =
     (let n = (of_char c :: nat)
      in if (65 \<le> n \<and> n \<le> 90) \<or> (192 \<le> n \<and> n \<le> 222 \<and> n \<noteq> 215)
         then char_of (n + 32) else c)"

definition toLowerCase :: "string \<Rightarrow> string" where
  "toLowerCase s = map lower_char s"

definition str_includes :: "string \<Rightarrow> char \<Rightarrow> bool" where
  "str_includes s c = (c \<in> set s)"

text \<open>\<open>s.split(d)\<close> for a one-character separator: never empty, \<open>''''.split(d) = ['''']\<close>.\<close>

fun js_split :: "char \<Rightarrow> string \<Rightarrow> string list" where
  "js_split d [] = [[]]"
| "js_split d (c # cs) =
     (if c = d then [] # js_split d cs
      else (case js_split d cs of [] \<Rightarrow> [[c]] | p # ps \<Rightarrow> (c # p) # ps))"

text \<open>\<open>Array.prototype.pop\<close>: the last element, \<open>undefined\<close> on the empty array.\<close>

definition pop :: "'a list \<Rightarrow> 'a option" where
  "pop xs = (if xs = [] then None else Some (last xs))"

subsection \<open>Numbers in strings\<close>

definition digit_char :: "nat \<Rightarrow> char" where
  "digit_char d = char_of (48 + d)"

text \<open>The decimal digits of a number, as \<open>String(n)\<close> and a template literal give them.\<close>

function string_of_nat :: "nat \<Rightarrow> string" where
  "string_of_nat n =
     (if n < 10 then [digit_char n] else string_of_nat (n div 10) @ [digit_char (n mod 10)])"
  by pat_completeness auto
termination
  by (relation "measure (\<lambda>n. n)") auto

text \<open>The property key that a primitive value is converted to in \<open>obj[value]\<close>.\<close>

fun to_property_key :: "prim \<Rightarrow> string" where
  "to_property_key (PStr s) = s"
| "to_property_key (PNum n) = string_of_nat n"
| "to_property_key PNull = ''null''"

subsection \<open>Updating a record in place\<close>

text \<open>
  \<open>obj[k].field = v\<close>, written as an update \<open>f\<close> of the record that \<open>obj[k]\<close> finds: the
  record is changed where it lives (own property, or the record serving as prototype).
  Setting a property of \<open>undefined\<close> or \<open>null\<close> throws; on a built-in of \<open>Object.prototype\<close>
  it leaves the own properties and the prototype link of the store as they are, and on
  any other primitive it is ignored.
\<close>

definition js_update :: "('r \<Rightarrow> string \<rightharpoonup> prim) \<Rightarrow> 'r jsobject \<Rightarrow> string \<Rightarrow> ('r \<Rightarrow> 'r) \<Rightarrow> js_error + 'r jsobject" where
  "js_update props obj k f =
     (case own obj k of
        Some r \<Rightarrow> Inr (obj\<lparr>own := (own obj)(k \<mapsto> f r)\<rparr>)
      | None \<Rightarrow>
          (case js_get props obj k of
             JSUndefined \<Rightarrow> Inl (TypeError ''Cannot set properties of undefined'')
           | JSPrim PNull \<Rightarrow> Inl (TypeError ''Cannot set properties of null'')
           | JSPrim _ \<Rightarrow> Inr obj
           | JSNative _ \<Rightarrow> Inr obj
           | JSRecord r \<Rightarrow> Inr (obj\<lparr>proto := Some (f r)\<rparr>)))"

section \<open>File uploads: \<open>plugins/multipart.js\<close>\<close>

definition ALLOWED_EXTENSIONS :: "string set" where
  "ALLOWED_EXTENSIONS = {''png'', ''jpg'', ''jpeg'', ''gif''}"

text \<open>
  \<open>allowedFile\<close>. Calling \<open>toLowerCase\<close> on the \<open>undefined\<close> that \<open>pop\<close> returns for an
  empty array would throw.
\<close>

definition allowedFile :: "string \<Rightarrow> js_error + bool" where
  "allowedFile filename =
     (if \<not> str_includes filename CHR ''.'' then Inr False
      else (case pop (js_split CHR ''.'' filename) of
              None \<Rightarrow> Inl (TypeError ''toLowerCase of undefined'')
            | Some ext \<Rightarrow> Inr (toLowerCase ext \<in> ALLOWED_EXTENSIONS)))"

text \<open>
  The description of \<open>allowedFile\<close> in words: the text after the last dot, and the test
  on it.
\<close>

definition after_last_dot :: "string \<Rightarrow> string" where
  "after_last_dot s = rev (takeWhile (\<lambda>c. c \<noteq> CHR ''.'') (rev s))"

definition allowed_by_extension :: "string \<Rightarrow> bool" where
  "allowed_by_extension s =
     (CHR ''.'' \<in> set s \<and>
      toLowerCase (after_last_dot s) \<in> {''png'', ''jpg'', ''jpeg'', ''gif''})"

section \<open>Sessions and flash messages\<close>

text \<open>
  A session holds the entries written by \<open>request.session.set\<close> and the pending flash
  messages of each category.
\<close>

record session =
  entries :: "string \<rightharpoonup> prim"
  flash :: "string \<rightharpoonup> string list"

definition session_get :: "session \<Rightarrow> string \<Rightarrow> prim option" where
  "session_get s k = entries s k"


text \<open>Truthiness of \<open>request.session.get(k)\<close>; an entry that is not set reads as \<open>undefined\<close>.\<close>

fun session_truthy :: "prim option \<Rightarrow> bool" where
  "session_truthy None = False"
| "session_truthy (Some v) = prim_truthy v"

text \<open>
  Modelled from the spec: the flash plugin (\<open>@fastify/flash\<close>, which provides
  \<open>request.flash\<close> and \<open>reply.flash\<close>) is not among the sources. The spec describes a flash
  message as "a one-time notification stored in session state and cleared after being
  read": \<open>request.flash(category, msg)\<close> appends a message to the category, and
  \<open>reply.flash(category)\<close> returns the messages of the category and removes them.
\<close>

definition pending :: "session \<Rightarrow> string \<Rightarrow> string list" where
  "pending s category = (case flash s category of None \<Rightarrow> [] | Some ms \<Rightarrow> ms)"

definition request_flash :: "session \<Rightarrow> string \<Rightarrow> string \<Rightarrow> session" where
  "request_flash s category msg =
     s\<lparr>flash := (flash s)(category \<mapsto> pending s category @ [msg])\<rparr>"

definition reply_flash :: "session \<Rightarrow> string \<Rightarrow> string list \<times> session" where
  "reply_flash s category = (pending s category, s\<lparr>flash := (flash s)(category := None)\<rparr>)"

subsection \<open>\<open>utils.js\<close>: \<open>collectMessages\<close>\<close>

type_synonym flash_message = "string \<times> string"

definition categories :: "string list" where
  "categories = [''danger'', ''success'', ''info'']"

text \<open>The inner loop pushes one \<open>{ category, message }\<close> per message.\<close>

definition push_messages :: "string \<Rightarrow> flash_message list \<Rightarrow> string list \<Rightarrow> flash_message list" where
  "push_messages category messages msgs = foldl (\<lambda>acc msg. acc @ [(category, msg)]) messages msgs"

fun collect_loop :: "string list \<Rightarrow> flash_message list \<Rightarrow> session \<Rightarrow> flash_message list \<times> session" where
  "collect_loop [] messages s = (messages, s)"
| "collect_loop (category # rest) messages s =
     (case reply_flash s category of
        (msgs, s') \<Rightarrow> collect_loop rest (push_messages category messages msgs) s')"

definition collectMessages :: "session \<Rightarrow> flash_message list \<times> session" where
  "collectMessages s = collect_loop categories [] s"

section \<open>Replies\<close>

datatype 'c reply = Redirect string | View string 'c | ServerError js_error

text \<open>
  \<open>reply.redirect(url)\<close> sends the address in the \<open>location\<close> header, and the platform
  refuses a header value with a control character (any character below U+0020 other than
  the tab, and U+007F): the call throws, and the request ends in the default error reply.
  A constant address of the handlers has no such character, so \<open>Redirect\<close> stands for
  their redirects directly; an address built from the request goes through
  \<open>reply_redirect\<close>.
\<close>

definition header_char_ok :: "char \<Rightarrow> bool" where
  "header_char_ok c = (let n = (of_char c :: nat) in n = 9 \<or> (32 \<le> n \<and> n \<noteq> 127))"

definition reply_redirect :: "string \<Rightarrow> 'c reply" where
  "reply_redirect url =
     (if list_all header_char_ok url then Redirect url else ServerError (InvalidChar url))"

section \<open>Password hashing\<close>

text \<open>
  \<open>argon2.hash\<close> and \<open>argon2.verify\<close> belong to a library; the handlers take them as
  parameters \<open>argon2_hash\<close> (the hash computed for this request, salt included) and
  \<open>argon2_verify\<close> (does the password match the stored hash).
\<close>

section \<open>Authentication over the in-memory object \<open>fastify.users\<close>\<close>

record mem_user =
  passwordHash :: string

definition mem_user_props :: "mem_user \<Rightarrow> string \<rightharpoonup> prim" where
  "mem_user_props u k = (if k = ''passwordHash'' then Some (PStr (passwordHash u)) else None)"

text \<open>\<open>POST /register\<close> of \<open>routes/auth.js\<close>, with \<open>fastify.users\<close> a plain object.\<close>

definition users_post_register ::
  "(string \<Rightarrow> string) \<Rightarrow> mem_user jsobject \<Rightarrow> session \<Rightarrow> string \<Rightarrow> string
     \<Rightarrow> mem_user jsobject \<times> session \<times> 'c reply" where
  "users_post_register argon2_hash users sess username password =
     (if js_truthy (js_get mem_user_props users username)
      then (users, request_flash sess ''danger'' ''Username already exists!'',
            Redirect ''/register'')
      else (let passwordHash = argon2_hash password
            in (js_set users username \<lparr>passwordHash = passwordHash\<rparr>,
                request_flash sess ''success'' ''Registration successful! Please log in.'',
                Redirect ''/login'')))"

subsection \<open>\<open>plugins/auth.js\<close>: the \<open>loginRequired\<close> decorator\<close>

definition loginRequired ::
  "('st \<Rightarrow> session \<Rightarrow> 'st \<times> session \<times> 'c reply) \<Rightarrow> 'st \<Rightarrow> session \<Rightarrow> 'st \<times> session \<times> 'c reply" where
  "loginRequired handler st sess =
     (if \<not> session_truthy (session_get sess ''user'')
      then (st, request_flash sess ''danger'' ''You must log in to access this page.'',
            Redirect ''/login'')
      else handler st sess)"

text \<open>\<open>GET /profile\<close> of \<open>routes/profile.js\<close>: the view gets the session's user.\<close>

definition profile_handler :: "'st \<Rightarrow> session \<Rightarrow> 'st \<times> session \<times> prim option reply" where
  "profile_handler st sess = (st, sess, View ''profile'' (session_get sess ''user''))"

definition get_profile :: "'st \<Rightarrow> session \<Rightarrow> 'st \<times> session \<times> prim option reply" where
  "get_profile = loginRequired profile_handler"

section \<open>Authentication over the \<open>user\<close> table\<close>

text \<open>
  The table \<open>user\<close>: an auto-incremented \<open>id\<close>, a \<open>username\<close> declared unique, and the
  \<open>password_hash\<close>. Rows are kept in insertion order.
\<close>

record user_row =
  user_id :: nat
  username :: string
  password_hash :: string

record user_table =
  rows :: "user_row list"
  last_id :: nat

definition empty_table :: user_table where
  "empty_table = \<lparr>rows = [], last_id = 0\<rparr>"

text \<open>
  \<open>SELECT * FROM user WHERE username = ?\<close> read with \<open>db.get\<close>, the username bound as a
  parameter: the first matching row, if any.
\<close>

definition select_by_username :: "user_table \<Rightarrow> string \<Rightarrow> user_row option" where
  "select_by_username db name = find (\<lambda>r. username r = name) (rows db)"

text \<open>
  \<open>User.findOne({ where: { username } })\<close> of the ORM, which writes the username into the
  text of the query: a username that contains the character U+0000 makes the call
  reject (the routes have no \<open>try\<close>/\<open>catch\<close>, so the request ends in the framework's
  default error reply); for any other username it is the same selection.
\<close>

definition findOne :: "user_table \<Rightarrow> string \<Rightarrow> js_error + user_row option" where
  "findOne db name =
     (if CHR 0x00 \<in> set name then Inl (QueryError name)
      else Inr (select_by_username db name))"

text \<open>
  The insertion of a row, \<open>User.create({ username, password_hash })\<close> or the \<open>INSERT\<close>
  statement: the unique constraint on \<open>username\<close> rejects a second row of the same name.
\<close>

definition insert_user :: "user_table \<Rightarrow> string \<Rightarrow> string \<Rightarrow> js_error + (user_table \<times> user_row)" where
  "insert_user db name hash =
     (if name \<in> set (map username (rows db))
      then Inl (ConstraintError ''UNIQUE constraint failed: user.username'')
      else (let row = \<lparr>user_id = Suc (last_id db), username = name, password_hash = hash\<rparr>
            in Inr (\<lparr>rows = rows db @ [row], last_id = Suc (last_id db)\<rparr>, row)))"

text \<open>
  \<open>POST /register\<close> of \<open>Example6/routes/auth.js\<close> (Sequelize). The \<open>user.save()\<close> that
  follows \<open>User.create\<close> finds no changed field and writes nothing.
\<close>

definition sequelize_post_register ::
  "(string \<Rightarrow> string) \<Rightarrow> user_table \<Rightarrow> session \<Rightarrow> string \<Rightarrow> string
     \<Rightarrow> user_table \<times> session \<times> 'c reply" where
  "sequelize_post_register argon2_hash db sess name password =
     (case findOne db name of
        Inl e \<Rightarrow> (db, sess, ServerError e)
      | Inr (Some existingUser) \<Rightarrow>
          (db, request_flash sess ''danger'' ''Username already exists!'', Redirect ''/register'')
      | Inr None \<Rightarrow>
          (let hash = argon2_hash password
           in case insert_user db name hash of
                Inl e \<Rightarrow> (db, sess, ServerError e)
              | Inr (db', user) \<Rightarrow>
                  (db', request_flash sess ''success'' ''Registration successful! Please log in.'',
                   Redirect ''/login'')))"



text \<open>The class \<open>User\<close> of \<open>utils/user.js\<close> over the SQLite connection.\<close>

definition User_create ::
  "(string \<Rightarrow> string) \<Rightarrow> user_table \<Rightarrow> string \<Rightarrow> string \<Rightarrow> js_error + (user_table \<times> nat)" where
  "User_create argon2_hash db name password =
     (let passwordHash = argon2_hash password
      in case insert_user db name passwordHash of
           Inl e \<Rightarrow> Inl e
         | Inr (db', row) \<Rightarrow> Inr (db', user_id row))"

definition User_findByUsername :: "user_table \<Rightarrow> string \<Rightarrow> user_row option" where
  "User_findByUsername db name = select_by_username db name"

text \<open>\<open>POST /register\<close> and \<open>POST /login\<close> of the routes that use the class \<open>User\<close>.\<close>

definition sqlite_post_register ::
  "(string \<Rightarrow> string) \<Rightarrow> user_table \<Rightarrow> session \<Rightarrow> string \<Rightarrow> string
     \<Rightarrow> user_table \<times> session \<times> 'c reply" where
  "sqlite_post_register argon2_hash db sess name password =
     (case User_findByUsername db name of
        Some existing \<Rightarrow>
          (db, request_flash sess ''danger'' ''Username already exists!'', Redirect ''/register'')
      | None \<Rightarrow>
          (case User_create argon2_hash db name password of
             Inl e \<Rightarrow> (db, sess, ServerError e)
           | Inr (db', lastID) \<Rightarrow>
               (db', request_flash sess ''success'' ''Registration successful! Please log in.'',
                Redirect ''/login'')))"


text \<open>
  The user tables that the server can reach: it starts from the empty table, and every
  registration request (of either route, with any hash) leads to the next one.
\<close>

inductive reachable_table :: "user_table \<Rightarrow> bool" where
  start: "reachable_table empty_table"
| sequelize_register:
    "reachable_table db \<Longrightarrow>
     sequelize_post_register h db sess name password = (db', sess', (r :: unit reply)) \<Longrightarrow>
     reachable_table db'"
| sqlite_register:
    "reachable_table db \<Longrightarrow>
     sqlite_post_register h db sess name password = (db', sess', (r :: unit reply)) \<Longrightarrow>
     reachable_table db'"

text \<open>The tables of the application that registers through the ORM route only.\<close>

inductive sequelize_table :: "user_table \<Rightarrow> bool" where
  empty: "sequelize_table empty_table"
| register:
    "sequelize_table db \<Longrightarrow>
     sequelize_post_register h db sess name password = (db', sess', (r :: unit reply)) \<Longrightarrow>
     sequelize_table db'"

section \<open>The wiki: users, pages and avatars in \<open>fastify.dataStore\<close>\<close>

record wiki_user =
  password :: string
  avatar :: "string option"

record page =
  content :: string
  author :: prim
  html_content :: "string option"

definition wiki_user_props :: "wiki_user \<Rightarrow> string \<rightharpoonup> prim" where
  "wiki_user_props u k =
     (if k = ''password'' then Some (PStr (password u))
      else if k = ''avatar'' then Some (case avatar u of None \<Rightarrow> PNull | Some a \<Rightarrow> PStr a)
      else None)"

definition page_props :: "page \<Rightarrow> string \<rightharpoonup> prim" where
  "page_props p k =
     (if k = ''content'' then Some (PStr (content p))
      else if k = ''author'' then Some (author p)
      else if k = ''html_content'' then map_option PStr (html_content p)
      else None)"

record upload =
  filename :: string
  buf :: string

text \<open>
  The state of the wiki: the two objects of \<open>inMemoryDatabase\<close>, and the files written to
  \<open>UPLOAD_FOLDER\<close> as pairs of the name joined to the folder and the contents.
\<close>

record dataStore =
  users :: "wiki_user jsobject"
  pages :: "page jsobject"
  uploads :: "(string \<times> string) list"

datatype wiki_view =
    ProfileView "wiki_user jsval" "flash_message list"
  | CreateView "flash_message list"

text \<open>\<open>GET /profile\<close> of \<open>routes/profile.js\<close>.\<close>

definition wiki_get_profile :: "dataStore \<Rightarrow> session \<Rightarrow> dataStore \<times> session \<times> wiki_view reply" where
  "wiki_get_profile st sess =
     (case session_get sess ''username'' of
        None \<Rightarrow>
          (st, request_flash sess ''danger'' ''You must be logged in to view your profile.'',
           Redirect ''/login'')
      | Some name \<Rightarrow>
          (if \<not> prim_truthy name
           then (st, request_flash sess ''danger'' ''You must be logged in to view your profile.'',
                 Redirect ''/login'')
           else (let user = js_get wiki_user_props (users st) (to_property_key name)
                 in case collectMessages sess of
                      (messages, sess') \<Rightarrow> (st, sess', View ''profile'' (ProfileView user messages)))))"

text \<open>
  \<open>POST /profile\<close> of \<open>routes/profile.js\<close>. \<open>now\<close> is \<open>Date.now()\<close>, \<open>file\<close> is
  \<open>request.body.avatar\<close>, and \<open>write_ok\<close> tells whether \<open>fs.promises.writeFile\<close> succeeds.
\<close>

definition wiki_post_profile ::
  "nat \<Rightarrow> bool \<Rightarrow> dataStore \<Rightarrow> session \<Rightarrow> upload option \<Rightarrow> dataStore \<times> session \<times> wiki_view reply" where
  "wiki_post_profile now write_ok st sess file =
     (case session_get sess ''username'' of
        None \<Rightarrow>
          (st, request_flash sess ''danger'' ''You must be logged in to upload an avatar.'',
           Redirect ''/login'')
      | Some name \<Rightarrow>
          (if \<not> prim_truthy name
           then (st, request_flash sess ''danger'' ''You must be logged in to upload an avatar.'',
                 Redirect ''/login'')
           else
             (case file of
                None \<Rightarrow> (st, request_flash sess ''danger'' ''No file selected.'', Redirect ''/profile'')
              | Some f \<Rightarrow>
                  (case allowedFile (filename f) of
                     Inl e \<Rightarrow> (st, sess, ServerError e)
                   | Inr False \<Rightarrow>
                       (st, request_flash sess ''danger''
                              ''Invalid file type. Allowed: png, jpg, jpeg, gif.'',
                        Redirect ''/profile'')
                   | Inr True \<Rightarrow>
                       (let name' = string_of_nat now @ ''_'' @ filename f
                        in if \<not> write_ok then (st, sess, ServerError (WriteError name'))
                           else
                             (let st1 = st\<lparr>uploads := uploads st @ [(name', buf f)]\<rparr>
                              in case js_update wiki_user_props (users st1) (to_property_key name)
                                        (\<lambda>u. u\<lparr>avatar := Some name'\<rparr>) of
                                   Inl e \<Rightarrow> (st1, sess, ServerError e)
                                 | Inr users' \<Rightarrow>
                                     (st1\<lparr>users := users'\<rparr>,
                                      request_flash sess ''success'' ''Avatar updated!'',
                                      Redirect ''/profile'')))))))"

text \<open>\<open>GET /create\<close> of \<open>routes/wiki.js\<close>: the messages are collected before the check.\<close>

definition wiki_get_create :: "dataStore \<Rightarrow> session \<Rightarrow> dataStore \<times> session \<times> wiki_view reply" where
  "wiki_get_create st sess =
     (case collectMessages sess of
        (messages, sess') \<Rightarrow>
          (if \<not> session_truthy (session_get sess' ''username'')
           then (st, request_flash sess' ''danger'' ''You must be logged in to create a page.'',
                 Redirect ''/login'')
           else (st, sess', View ''create_page'' (CreateView messages))))"

text \<open>
  \<open>POST /create\<close> of \<open>routes/wiki.js\<close>, for a body that gives \<open>title\<close> and \<open>content\<close> as
  strings. The page is stored before the redirect to \<open>/wiki/<title>\<close> is sent, so a title
  that the \<open>location\<close> header refuses ends in an error after the store has changed.
\<close>

definition wiki_post_create ::
  "dataStore \<Rightarrow> session \<Rightarrow> string \<Rightarrow> string \<Rightarrow> dataStore \<times> session \<times> wiki_view reply" where
  "wiki_post_create st sess title content' =
     (case session_get sess ''username'' of
        None \<Rightarrow>
          (st, request_flash sess ''danger'' ''You must be logged in to create a page.'',
           Redirect ''/login'')
      | Some name \<Rightarrow>
          (if \<not> prim_truthy name
           then (st, request_flash sess ''danger'' ''You must be logged in to create a page.'',
                 Redirect ''/login'')
           else (st\<lparr>pages := js_set (pages st) title
                               \<lparr>content = content', author = name, html_content = None\<rparr>\<rparr>,
                 sess, reply_redirect (''/wiki/'' @ title))))"

text \<open>A wiki with one page, and the session of another logged-in user.\<close>

definition home_page :: page where
  "home_page = \<lparr>content = ''old'', author = PStr ''alice'', html_content = None\<rparr>"

definition one_page_store :: dataStore where
  "one_page_store =
     \<lparr>users = empty_object,
      pages = \<lparr>own = [''Home'' \<mapsto> home_page], proto = None\<rparr>,
      uploads = []\<rparr>"

definition bob_session :: session where
  "bob_session = \<lparr>entries = [''username'' \<mapsto> PStr ''bob''], flash = Map.empty\<rparr>"

section \<open>The quotes of \<open>routes/share.js\<close>\<close>

record quote_entry =
  quote_author :: string
  quote :: string

text \<open>\<open>POST /share\<close>, once the body has passed the schema: \<open>QuotesDB.push\<close> and a log line.\<close>

definition post_share ::
  "quote_entry list \<times> string list \<Rightarrow> string \<Rightarrow> string \<Rightarrow> (quote_entry list \<times> string list) \<times> unit reply" where
  "post_share st author' quote' =
     (case st of (QuotesDB, log) \<Rightarrow>
        ((QuotesDB @ [\<lparr>quote_author = author', quote = quote'\<rparr>],
          log @ [''New quote added by '' @ author']),
         Redirect ''/''))"

section \<open>The contact form: \<open>routes/contact_csrf.js\<close> and the error handler of \<open>app.js\<close>\<close>

text \<open>
  A body parsed from a submitted form: each field that occurs once is a string, a field
  that occurs several times is the list of its values.
\<close>

datatype formval = Single string | Repeated "string list"

type_synonym form_body = "string \<rightharpoonup> formval"

text \<open>The schema: every property has \<open>type: 'string'\<close> and optional length bounds.\<close>

record string_schema =
  minLength :: "nat option"
  maxLength :: "nat option"

record body_schema =
  required :: "string list"
  properties :: "(string \<times> string_schema) list"

definition contactSchema :: body_schema where
  "contactSchema =
     \<lparr>required = [''name'', ''message'', ''_csrf''],
      properties =
        [(''name'', \<lparr>minLength = Some 3, maxLength = Some 25\<rparr>),
         (''message'', \<lparr>minLength = None, maxLength = Some 200\<rparr>),
         (''_csrf'', \<lparr>minLength = None, maxLength = None\<rparr>)]\<rparr>"

datatype validation_error =
    MissingProperty string
  | NotAString string
  | TooShort string nat
  | TooLong string nat

text \<open>
  Modelled from the spec: the validator that the framework runs on \<open>request.body\<close> is not
  among the sources. The spec speaks of "generic validation-error interception", and
  the schema is the source's: a required property must be present, a property that is
  present must be a string (a list of exactly one value counts as that value), and its
  length must lie within the bounds. Validation stops at the first error.
\<close>

fun first_missing :: "string list \<Rightarrow> form_body \<Rightarrow> validation_error option" where
  "first_missing [] body = None"
| "first_missing (k # ks) body =
     (case body k of None \<Rightarrow> Some (MissingProperty k) | Some v \<Rightarrow> first_missing ks body)"

fun as_string :: "formval \<Rightarrow> string option" where
  "as_string (Single s) = Some s"
| "as_string (Repeated [s]) = Some s"
| "as_string (Repeated vs) = None"

definition check_string :: "string \<Rightarrow> string_schema \<Rightarrow> formval \<Rightarrow> validation_error option" where
  "check_string k sch v =
     (case as_string v of
        None \<Rightarrow> Some (NotAString k)
      | Some s \<Rightarrow>
          (case maxLength sch of
             Some m \<Rightarrow>
               (if m < length s then Some (TooLong k m)
                else (case minLength sch of
                        Some n \<Rightarrow> (if length s < n then Some (TooShort k n) else None)
                      | None \<Rightarrow> None))
           | None \<Rightarrow>
               (case minLength sch of
                  Some n \<Rightarrow> (if length s < n then Some (TooShort k n) else None)
                | None \<Rightarrow> None)))"

fun check_properties :: "(string \<times> string_schema) list \<Rightarrow> form_body \<Rightarrow> validation_error option" where
  "check_properties [] body = None"
| "check_properties ((k, sch) # rest) body =
     (case body k of
        None \<Rightarrow> check_properties rest body
      | Some v \<Rightarrow>
          (case check_string k sch v of
             Some e \<Rightarrow> Some e
           | None \<Rightarrow> check_properties rest body))"

definition validate :: "body_schema \<Rightarrow> form_body \<Rightarrow> validation_error list" where
  "validate schema body =
     (case first_missing (required schema) body of
        Some e \<Rightarrow> [e]
      | None \<Rightarrow>
          (case check_properties (properties schema) body of
             Some e \<Rightarrow> [e]
           | None \<Rightarrow> []))"

text \<open>
  The state of the contact application: the lines written by \<open>fastify.log.info\<close>, and the
  number of CSRF tokens generated so far.

  Modelled from the spec: \<open>reply.generateCsrf\<close> belongs to the CSRF plugin, which is not
  among the sources; the spec calls the token "a per-request anti-forgery value". The
  parameter \<open>token_of\<close> gives the token of each generation.
\<close>

record contact_state =
  log_lines :: "string list"
  generated :: nat

definition generateCsrf :: "(nat \<Rightarrow> string) \<Rightarrow> contact_state \<Rightarrow> string \<times> contact_state" where
  "generateCsrf token_of st = (token_of (generated st), st\<lparr>generated := Suc (generated st)\<rparr>)"

datatype contact_view =
    FormView string
  | SubmittedView string string
  | ErrorsView "validation_error list" string

datatype app_error = ValidationFailed "validation_error list" | OtherError string

datatype contact_reply = Rendered string contact_view | Sent app_error

text \<open>How a field of the body appears in a template literal.\<close>

fun intercalate :: "string \<Rightarrow> string list \<Rightarrow> string" where
  "intercalate sep [] = []"
| "intercalate sep [x] = x"
| "intercalate sep (x # y # ys) = x @ sep @ intercalate sep (y # ys)"

fun field_text :: "formval option \<Rightarrow> string" where
  "field_text None = ''undefined''"
| "field_text (Some (Single s)) = s"
| "field_text (Some (Repeated vs)) = intercalate '','' vs"

text \<open>The handler of \<open>POST /contact_csrf\<close>.\<close>

definition contact_csrf_handler ::
  "(nat \<Rightarrow> string) \<Rightarrow> contact_state \<Rightarrow> form_body \<Rightarrow> contact_state \<times> contact_reply" where
  "contact_csrf_handler token_of st body =
     (let name = field_text (body ''name'');
          message = field_text (body ''message'');
          st1 = st\<lparr>log_lines := log_lines st @ [''Received from '' @ name @ '': '' @ message]\<rparr>
      in case generateCsrf token_of st1 of
           (token, st2) \<Rightarrow> (st2, Rendered ''contact_csrf'' (SubmittedView name token)))"

text \<open>The handler given to \<open>setErrorHandler\<close> in \<open>app.js\<close>.\<close>

definition errorHandler ::
  "(nat \<Rightarrow> string) \<Rightarrow> contact_state \<Rightarrow> app_error \<Rightarrow> contact_state \<times> contact_reply" where
  "errorHandler token_of st error =
     (case error of
        ValidationFailed validation \<Rightarrow>
          (case generateCsrf token_of st of
             (token, st') \<Rightarrow> (st', Rendered ''contact_csrf'' (ErrorsView validation token)))
      | OtherError m \<Rightarrow> (st, Sent error))"

text \<open>
  The route \<open>POST /contact_csrf\<close> with \<open>{ schema: contactSchema }\<close>: the body is validated
  first, and a failure goes to the error handler instead of the handler.
\<close>

definition post_contact_csrf ::
  "(nat \<Rightarrow> string) \<Rightarrow> contact_state \<Rightarrow> form_body \<Rightarrow> contact_state \<times> contact_reply" where
  "post_contact_csrf token_of st body =
     (case validate contactSchema body of
        [] \<Rightarrow> contact_csrf_handler token_of st body
      | e # es \<Rightarrow> errorHandler token_of st (ValidationFailed (e # es)))"

section \<open>The book catalogue: \<open>GET /books/:bookId\<close>\<close>

record book =
  book_id :: string
  book_title :: string
  book_author :: string
  book_price :: nat

definition book_props :: "book \<Rightarrow> string \<rightharpoonup> prim" where
  "book_props b k =
     (if k = ''id'' then Some (PStr (book_id b))
      else if k = ''title'' then Some (PStr (book_title b))
      else if k = ''author'' then Some (PStr (book_author b))
      else if k = ''price'' then Some (PNum (book_price b))
      else None)"

definition booksDb :: "book jsobject" where
  "booksDb =
     \<lparr>own =
        [''201'' \<mapsto> \<lparr>book_id = ''201'', book_title = ''Clean Code'',
                     book_author = ''Robert C. Martin'', book_price = 35\<rparr>,
         ''202'' \<mapsto> \<lparr>book_id = ''202'', book_title = ''The Pragmatic Programmer'',
                     book_author = ''Andrew Hunt'', book_price = 45\<rparr>,
         ''203'' \<mapsto> \<lparr>book_id = ''203'', book_title = ''Design Patterns'',
                     book_author = ''Erich Gamma'', book_price = 55\<rparr>],
      proto = None\<rparr>"

text \<open>A query parameter: absent, given once, or given several times (an array).\<close>

datatype query_value = QSingle string | QRepeated "string list"

text \<open>\<open>value == str\<close>: \<open>undefined\<close> equals no string, an array is compared by its join.\<close>

fun loose_equals :: "query_value option \<Rightarrow> string \<Rightarrow> bool" where
  "loose_equals None str = False"
| "loose_equals (Some (QSingle s)) str = (s = str)"
| "loose_equals (Some (QRepeated vs)) str = (intercalate '','' vs = str)"

text \<open>
  What the handler returns or sends: a whole record, the object \<open>{ title, author }\<close> (a
  property read from something that is no book is \<open>undefined\<close>), the error object, or a
  value found in \<open>Object.prototype\<close>.
\<close>

datatype book_body =
    FullRecord book
  | TitleAuthor "string option" "string option"
  | ErrorBody string
  | BuiltIn string
  | Primitive prim

record book_response =
  status :: nat
  payload :: book_body

text \<open>
  \<open>GET /books/:bookId\<close>. Destructuring \<open>undefined\<close> or \<open>null\<close> throws, and the \<open>catch\<close>
  sends the 404; destructuring any other value succeeds.
\<close>

definition get_book :: "string \<Rightarrow> query_value option \<Rightarrow> book_response" where
  "get_book bookId summary =
     (if loose_equals summary ''true''
      then (case js_get book_props booksDb bookId of
              JSRecord b \<Rightarrow>
                \<lparr>status = 200, payload = TitleAuthor (Some (book_title b)) (Some (book_author b))\<rparr>
            | JSUndefined \<Rightarrow> \<lparr>status = 404, payload = ErrorBody ''Book not found''\<rparr>
            | JSPrim PNull \<Rightarrow> \<lparr>status = 404, payload = ErrorBody ''Book not found''\<rparr>
            | JSPrim _ \<Rightarrow> \<lparr>status = 200, payload = TitleAuthor None None\<rparr>
            | JSNative _ \<Rightarrow> \<lparr>status = 200, payload = TitleAuthor None None\<rparr>)
      else (case js_get book_props booksDb bookId of
              JSRecord b \<Rightarrow> \<lparr>status = 200, payload = FullRecord b\<rparr>
            | JSNative n \<Rightarrow> \<lparr>status = 200, payload = BuiltIn n\<rparr>
            | JSPrim v \<Rightarrow>
                (if prim_truthy v then \<lparr>status = 200, payload = Primitive v\<rparr>
                 else \<lparr>status = 200, payload = ErrorBody ''Book not found''\<rparr>)
            | JSUndefined \<Rightarrow> \<lparr>status = 200, payload = ErrorBody ''Book not found''\<rparr>))"

section \<open>Example states\<close>

text \<open>A stand-in for the hashing library, and stores that hold the user alice.\<close>

definition toy_hash :: "string \<Rightarrow> string" where
  "toy_hash p = ''$argon2id$'' @ p"


definition empty_session :: session where
  "empty_session = \<lparr>entries = Map.empty, flash = Map.empty\<rparr>"

definition alice_row :: user_row where
  "alice_row = \<lparr>user_id = 1, username = ''alice'', password_hash = toy_hash ''secret''\<rparr>"

definition one_user_table :: user_table where
  "one_user_table = \<lparr>rows = [alice_row], last_id = 1\<rparr>"


definition one_user_object :: "mem_user jsobject" where
  "one_user_object = \<lparr>own = [''alice'' \<mapsto> \<lparr>passwordHash = toy_hash ''secret''\<rparr>], proto = None\<rparr>"

text \<open>A wiki in which alice is registered and logged in, and two files to upload.\<close>

definition alice_user :: wiki_user where
  "alice_user = \<lparr>password = toy_hash ''secret'', avatar = None\<rparr>"

definition wiki_with_alice :: dataStore where
  "wiki_with_alice =
     \<lparr>users = \<lparr>own = [''alice'' \<mapsto> alice_user], proto = None\<rparr>,
      pages = \<lparr>own = [''Home'' \<mapsto> home_page], proto = None\<rparr>,
      uploads = []\<rparr>"

definition alice_session :: session where
  "alice_session = \<lparr>entries = [''username'' \<mapsto> PStr ''alice''], flash = Map.empty\<rparr>"

definition cat_picture :: upload where
  "cat_picture = \<lparr>filename = ''cat.PNG'', buf = ''(image)''\<rparr>"

definition notes_file :: upload where
  "notes_file = \<lparr>filename = ''notes.txt'', buf = ''(text)''\<rparr>"

section \<open>Properties of \<open>allowedFile\<close>\<close>

lemma js_split_nonempty: "js_split d s \<noteq> []"
  by (induction s) (auto split: list.splits)

lemma js_split_no_sep: "d \<notin> set s \<Longrightarrow> js_split d s = [s]"
  by (induction s) auto

lemma js_split_two: "d \<in> set s \<Longrightarrow> 2 \<le> length (js_split d s)"
proof (induction s)
  case Nil
  then show ?case by simp
next
  case (Cons c cs)
  show ?case
  proof (cases "c = d")
    case True
    then show ?thesis using js_split_nonempty [of d cs] by (cases "js_split d cs") auto
  next
    case False
    with Cons show ?thesis by (auto split: list.splits)
  qed
qed

text \<open>The last piece of a split is what follows the last separator.\<close>

lemma last_js_split_append: "d \<notin> set b \<Longrightarrow> last (js_split d (a @ d # b)) = b"
proof (induction a)
  case Nil
  then show ?case by (simp add: js_split_no_sep)
next
  case (Cons c a)
  have two: "2 \<le> length (js_split d (a @ d # b))"
    by (rule js_split_two) simp
  show ?case
  proof (cases "c = d")
    case True
    then show ?thesis using Cons js_split_nonempty [of d "a @ d # b"] by simp
  next
    case False
    obtain p ps where ps: "js_split d (a @ d # b) = p # ps"
      using js_split_nonempty [of d "a @ d # b"] by (cases "js_split d (a @ d # b)") auto
    with two have "ps \<noteq> []" by auto
    with False ps Cons show ?thesis by simp
  qed
qed

lemma after_last_dot_append: "CHR ''.'' \<notin> set b \<Longrightarrow> after_last_dot (a @ CHR ''.'' # b) = b"
  by (simp add: after_last_dot_def takeWhile_append)

lemma pop_js_split:
  assumes "CHR ''.'' \<in> set s"
  shows "pop (js_split CHR ''.'' s) = Some (after_last_dot s)"
proof -
  from assms obtain a b where s: "s = a @ CHR ''.'' # b" and b: "CHR ''.'' \<notin> set b"
    by (meson split_list_last)
  show ?thesis
    using last_js_split_append [OF b, of a] after_last_dot_append [OF b, of a]
      js_split_nonempty [of "CHR ''.''" s]
    by (simp add: pop_def s)
qed

lemma allowedFile_by_extension: "allowedFile s = Inr (allowed_by_extension s)"
  using pop_js_split [of s]
  by (auto simp: allowedFile_def allowed_by_extension_def str_includes_def ALLOWED_EXTENSIONS_def)

text \<open>Lower-casing neither creates nor removes a dot.\<close>

lemma of_char_dot: "(of_char x :: nat) = 46 \<longleftrightarrow> x = CHR ''.''"
proof -
  have "(of_char x :: nat) = of_char CHR ''.'' \<longleftrightarrow> x = CHR ''.''"
    by (simp only: of_char_eq_iff)
  then show ?thesis by simp
qed

lemma lower_char_dot: "lower_char c = CHR ''.'' \<longleftrightarrow> c = CHR ''.''"
proof -
  have "(of_char (lower_char c) :: nat) = 46 \<longleftrightarrow> (of_char c :: nat) = 46"
    by (auto simp: lower_char_def Let_def)
  then show ?thesis by (simp only: of_char_dot)
qed

lemma lower_char_dot_flip: "CHR ''.'' = lower_char c \<longleftrightarrow> CHR ''.'' = c"
  using lower_char_dot [of c] by (simp only: eq_commute [of "CHR ''.''"])

lemma dot_toLowerCase: "CHR ''.'' \<in> set (toLowerCase s) \<longleftrightarrow> CHR ''.'' \<in> set s"
  unfolding toLowerCase_def
proof (induction s)
  case Nil
  show ?case by simp
next
  case (Cons a s)
  then show ?case by (simp add: lower_char_dot_flip)
qed

lemma after_last_dot_toLowerCase:
  "toLowerCase (after_last_dot s) = after_last_dot (toLowerCase s)"
proof -
  have "takeWhile (\<lambda>c. c \<noteq> CHR ''.'') (map lower_char xs) =
        map lower_char (takeWhile (\<lambda>c. c \<noteq> CHR ''.'') xs)" for xs
    by (induction xs) (simp_all add: lower_char_dot)
  then show ?thesis
    by (simp add: after_last_dot_def toLowerCase_def rev_map)
qed

lemma allowed_by_extension_toLowerCase:
  "allowed_by_extension s =
     (CHR ''.'' \<in> set (toLowerCase s) \<and>
      after_last_dot (toLowerCase s) \<in> {''png'', ''jpg'', ''jpeg'', ''gif''})"
  by (simp only: allowed_by_extension_def after_last_dot_toLowerCase dot_toLowerCase)

text \<open>
  C9. \<open>allowedFile\<close> returns true exactly when its argument contains a dot and the text
  after the last dot, lower-cased, is one of png, jpg, jpeg and gif. It never throws, it
  returns false for a name without a dot, and two names that differ only in the case of
  their letters get the same answer.
\<close>

theorem allowedFile_extension:
  "allowedFile s =
     Inr (CHR ''.'' \<in> set s \<and>
          toLowerCase (after_last_dot s) \<in> {''png'', ''jpg'', ''jpeg'', ''gif''})
   \<and> (CHR ''.'' \<notin> set s \<longrightarrow> allowedFile s = Inr False)
   \<and> (toLowerCase s = toLowerCase t \<longrightarrow> allowedFile s = allowedFile t)"
proof -
  have spec: "allowedFile s =
     Inr (CHR ''.'' \<in> set s \<and>
          toLowerCase (after_last_dot s) \<in> {''png'', ''jpg'', ''jpeg'', ''gif''})"
    using allowedFile_by_extension [of s] by (simp only: allowed_by_extension_def)
  have nodot: "CHR ''.'' \<notin> set s \<longrightarrow> allowedFile s = Inr False"
    by (simp add: spec)
  have "allowed_by_extension s = allowed_by_extension t" if "toLowerCase s = toLowerCase t"
    by (simp only: allowed_by_extension_toLowerCase that)
  then have "toLowerCase s = toLowerCase t \<longrightarrow> allowedFile s = allowedFile t"
    by (simp add: allowedFile_by_extension)
  with spec nodot show ?thesis by blast
qed

theorem allowedFile_extension_witness:
  "CHR ''.'' \<notin> set ''README'' \<and> allowedFile ''README'' = Inr False
   \<and> toLowerCase ''me.JPG'' = toLowerCase ''Me.jpg''
   \<and> allowedFile ''me.JPG'' = allowedFile ''Me.jpg''
   \<and> allowedFile ''me.JPG'' = Inr True"
proof -
  have a: "CHR ''.'' \<notin> set ''README''" by simp
  have b: "toLowerCase ''me.JPG'' = toLowerCase ''Me.jpg''" by code_simp
  have c: "toLowerCase (after_last_dot ''me.JPG'') = ''jpg''" by code_simp
  show ?thesis
    using a b c allowedFile_extension [of "''README''" "''README''"]
      allowedFile_extension [of "''me.JPG''" "''Me.jpg''"]
    by auto
qed

section \<open>Properties of the flash messages\<close>

lemma push_messages_map: "push_messages c messages msgs = messages @ map (Pair c) msgs"
  unfolding push_messages_def
  by (induction msgs arbitrary: messages) simp_all

lemma collect_loop_entries: "entries (snd (collect_loop cs messages s)) = entries s"
  by (induction cs arbitrary: messages s) (simp_all add: reply_flash_def)

lemma collectMessages_entries: "entries (snd (collectMessages s)) = entries s"
  by (simp add: collectMessages_def collect_loop_entries)

lemma collectMessages_fst:
  "fst (collectMessages s) =
     map (Pair ''danger'') (pending s ''danger'') @ map (Pair ''success'') (pending s ''success'')
       @ map (Pair ''info'') (pending s ''info'')"
  by (simp add: collectMessages_def categories_def reply_flash_def push_messages_map pending_def)

lemma collectMessages_snd:
  "snd (collectMessages s) =
     s\<lparr>flash := (flash s)(''danger'' := None, ''success'' := None, ''info'' := None)\<rparr>"
  by (simp add: collectMessages_def categories_def reply_flash_def)

lemma pending_request_flash:
  "pending (request_flash s c m) c = pending s c @ [m]"
  by (simp add: request_flash_def pending_def)


text \<open>
  C5. \<open>collectMessages\<close> returns the pending messages of the categories danger, success
  and info, each with its category, and removes them from the session: afterwards none
  of the three categories has a pending message, and a second call on the session that
  the first call leaves returns the empty list.
\<close>

theorem collectMessages_clears:
  "fst (collectMessages s) =
     map (Pair ''danger'') (pending s ''danger'') @ map (Pair ''success'') (pending s ''success'')
       @ map (Pair ''info'') (pending s ''info'')
   \<and> snd (collectMessages s) =
     s\<lparr>flash := (flash s)(''danger'' := None, ''success'' := None, ''info'' := None)\<rparr>
   \<and> pending (snd (collectMessages s)) ''danger'' = []
   \<and> pending (snd (collectMessages s)) ''success'' = []
   \<and> pending (snd (collectMessages s)) ''info'' = []
   \<and> fst (collectMessages (snd (collectMessages s))) = []"
proof -
  have cleared: "pending (snd (collectMessages s)) c = []"
    if "c \<in> set categories" for c
    using that by (auto simp: collectMessages_snd pending_def categories_def)
  have "fst (collectMessages (snd (collectMessages s))) = []"
    unfolding collectMessages_fst [of "snd (collectMessages s)"]
    by (simp add: cleared categories_def)
  then show ?thesis
    using collectMessages_fst [of s] collectMessages_snd [of s] cleared
    by (simp add: categories_def)
qed

section \<open>Protected routes\<close>

text \<open>
  C2. A request whose session has no logged-in user never gets the protected view. When
  \<open>username\<close> is not set, \<open>GET /profile\<close>, \<open>GET /create\<close>, \<open>POST /create\<close> and
  \<open>POST /profile\<close> of the wiki leave the store as it is, flash a danger message and
  redirect to \<open>/login\<close>; when \<open>user\<close> is not set, so does every handler wrapped by
  \<open>loginRequired\<close>, whatever the handler. The flashed message is then the last pending
  danger message.
\<close>

theorem unauthenticated_redirects_to_login:
  "(session_get sess ''username'' = None \<longrightarrow>
      wiki_get_profile st sess =
        (st, request_flash sess ''danger'' ''You must be logged in to view your profile.'',
         Redirect ''/login'')
      \<and> wiki_get_create st sess =
        (st, request_flash (snd (collectMessages sess)) ''danger''
               ''You must be logged in to create a page.'',
         Redirect ''/login'')
      \<and> wiki_post_create st sess title content' =
        (st, request_flash sess ''danger'' ''You must be logged in to create a page.'',
         Redirect ''/login'')
      \<and> wiki_post_profile now write_ok st sess upl =
        (st, request_flash sess ''danger'' ''You must be logged in to upload an avatar.'',
         Redirect ''/login''))
   \<and> (session_get sess ''user'' = None \<longrightarrow>
      loginRequired handler st' sess =
        (st', request_flash sess ''danger'' ''You must log in to access this page.'',
         Redirect ''/login'')
      \<and> get_profile st' sess =
        (st', request_flash sess ''danger'' ''You must log in to access this page.'',
         Redirect ''/login''))
   \<and> pending (request_flash s ''danger'' m) ''danger'' = pending s ''danger'' @ [m]"
proof -
  have create: "wiki_get_create st sess =
        (st, request_flash (snd (collectMessages sess)) ''danger''
               ''You must be logged in to create a page.'',
         Redirect ''/login'')" if "session_get sess ''username'' = None"
  proof -
    have "session_get (snd (collectMessages sess)) ''username'' = None"
      using that by (simp add: session_get_def collectMessages_entries)
    then show ?thesis
      by (cases "collectMessages sess") (simp add: wiki_get_create_def)
  qed
  show ?thesis
    by (simp add: create wiki_get_profile_def wiki_post_create_def wiki_post_profile_def
        loginRequired_def get_profile_def pending_request_flash)
qed

theorem unauthenticated_redirects_to_login_witness:
  "session_get \<lparr>entries = Map.empty, flash = Map.empty\<rparr> ''username'' = None
   \<and> session_get \<lparr>entries = Map.empty, flash = Map.empty\<rparr> ''user'' = None
   \<and> wiki_get_profile one_page_store \<lparr>entries = Map.empty, flash = Map.empty\<rparr> =
        (one_page_store,
         \<lparr>entries = Map.empty,
            flash = [''danger'' \<mapsto> [''You must be logged in to view your profile.'']]\<rparr>,
         Redirect ''/login'')
   \<and> get_profile one_page_store \<lparr>entries = Map.empty, flash = Map.empty\<rparr> =
        (one_page_store,
         \<lparr>entries = Map.empty,
            flash = [''danger'' \<mapsto> [''You must log in to access this page.'']]\<rparr>,
         Redirect ''/login'')"
  using unauthenticated_redirects_to_login
    [where sess = "\<lparr>entries = Map.empty, flash = Map.empty\<rparr>" and st = one_page_store
       and st' = one_page_store and handler = profile_handler and title = "''Home''"
       and content' = "''text''" and now = 0 and write_ok = True and upl = None
       and s = "\<lparr>entries = Map.empty, flash = Map.empty\<rparr>" and m = "''m''"]
  by (simp add: session_get_def request_flash_def pending_def)

section \<open>Registration and login\<close>

lemma select_by_username_None_iff:
  "select_by_username db name = None \<longleftrightarrow> name \<notin> set (map username (rows db))"
  by (auto simp: select_by_username_def find_None_iff)

lemma select_by_username_Some:
  "select_by_username db name = Some u \<Longrightarrow> username u = name \<and> u \<in> set (rows db)"
  by (auto simp: select_by_username_def find_Some_iff)

lemma findOne_accepts: "CHR 0x00 \<notin> set name \<Longrightarrow> findOne db name = Inr (select_by_username db name)"
  by (simp add: findOne_def)

lemma findOne_rejects: "CHR 0x00 \<in> set name \<Longrightarrow> findOne db name = Inl (QueryError name)"
  by (simp add: findOne_def)

text \<open>
  Where its lookup accepts the username, the route over the ORM answers as the route
  over the SQLite connection does; where the lookup rejects, nothing changes.
\<close>

lemma sequelize_post_register_accepts:
  "CHR 0x00 \<notin> set name \<Longrightarrow>
   sequelize_post_register h db sess name pw = sqlite_post_register h db sess name pw"
  by (auto simp: sqlite_post_register_def sequelize_post_register_def User_findByUsername_def
      User_create_def Let_def insert_user_def findOne_accepts split: option.splits)

lemma sequelize_post_register_rejects:
  "CHR 0x00 \<in> set name \<Longrightarrow>
   sequelize_post_register h db sess name pw = (db, sess, ServerError (QueryError name))"
  by (simp add: sequelize_post_register_def findOne_rejects)



text \<open>A registration either leaves the table as it is or appends one row of a new name.\<close>

lemma sqlite_post_register_cases:
  assumes "sqlite_post_register h db sess name pw = (db', sess', r)"
  shows "db' = db \<or>
         (name \<notin> set (map username (rows db)) \<and>
          db' = \<lparr>rows = rows db @ [\<lparr>user_id = Suc (last_id db), username = name,
                                      password_hash = h pw\<rparr>],
                 last_id = Suc (last_id db)\<rparr>)"
  using assms
  by (auto simp: sqlite_post_register_def User_findByUsername_def User_create_def
      insert_user_def Let_def select_by_username_None_iff split: option.splits if_splits)

lemma sequelize_post_register_cases:
  assumes "sequelize_post_register h db sess name pw = (db', sess', r)"
  shows "db' = db \<or>
         (name \<notin> set (map username (rows db)) \<and> CHR 0x00 \<notin> set name \<and>
          db' = \<lparr>rows = rows db @ [\<lparr>user_id = Suc (last_id db), username = name,
                                      password_hash = h pw\<rparr>],
                 last_id = Suc (last_id db)\<rparr>)"
proof (cases "CHR 0x00 \<in> set name")
  case True
  with assms show ?thesis by (simp add: sequelize_post_register_rejects)
next
  case False
  with assms have "sqlite_post_register h db sess name pw = (db', sess', r)"
    by (simp add: sequelize_post_register_accepts)
  from sqlite_post_register_cases [OF this] False show ?thesis by simp
qed

lemma reachable_table_distinct: "reachable_table db \<Longrightarrow> distinct (map username (rows db))"
proof (induction rule: reachable_table.induct)
  case start
  show ?case by (simp add: empty_table_def)
next
  case (sequelize_register db h sess name password db' sess' r)
  from sequelize_post_register_cases [OF sequelize_register.hyps(2)] sequelize_register.IH
  show ?case by auto
next
  case (sqlite_register db h sess name password db' sess' r)
  from sqlite_post_register_cases [OF sqlite_register.hyps(2)] sqlite_register.IH
  show ?case by auto
qed

text \<open>The tables built through the ORM route are reachable, and hold no name with U+0000.\<close>

lemma sequelize_table_reachable: "sequelize_table db \<Longrightarrow> reachable_table db"
proof (induction rule: sequelize_table.induct)
  case empty
  show ?case by (rule reachable_table.start)
next
  case (register db h sess name password db' sess' r)
  from register.IH register.hyps(2) show ?case
    by (rule reachable_table.sequelize_register)
qed

lemma sequelize_table_names:
  "sequelize_table db \<Longrightarrow> \<forall>n \<in> set (map username (rows db)). CHR 0x00 \<notin> set n"
proof (induction rule: sequelize_table.induct)
  case empty
  show ?case by (simp add: empty_table_def)
next
  case (register db h sess name password db' sess' r)
  from sequelize_post_register_cases [OF register.hyps(2)] register.IH
  show ?case by auto
qed

lemma distinct_map_filter_le_1:
  "distinct (map f xs) \<Longrightarrow> length (filter (\<lambda>x. f x = k) xs) \<le> 1"
proof (induction xs)
  case Nil
  show ?case by simp
next
  case (Cons x xs)
  show ?case
  proof (cases "f x = k")
    case True
    with Cons.prems have "\<forall>y\<in>set xs. f y \<noteq> k"
      by (simp add: image_iff) metis
    then have "filter (\<lambda>y. f y = k) xs = []"
      by (simp add: filter_empty_conv)
    with True show ?thesis by simp
  next
    case False
    with Cons show ?thesis by simp
  qed
qed

lemma sequelize_one_user_table: "sequelize_table one_user_table"
proof -
  have "sequelize_post_register toy_hash empty_table empty_session ''alice'' ''secret'' =
          (one_user_table,
           request_flash empty_session ''success'' ''Registration successful! Please log in.'',
           (Redirect ''/login'' :: unit reply))"
    by (simp add: sequelize_post_register_def findOne_def select_by_username_def
        empty_table_def insert_user_def one_user_table_def alice_row_def Let_def)
  with sequelize_table.empty show ?thesis
    by (rule sequelize_table.register)
qed

text \<open>
  C3. The username is a unique key of the user records. In every user table that the
  server can reach (through either route), at most one row has a given username. A
  registration with a username that already exists leaves the store as it is, flashes
  the danger message "Username already exists!" and redirects to \<open>/register\<close>: over the
  SQLite connection for every table, over the ORM for every table that its route can
  build (and for every other table when the lookup accepts the name; the store is
  unchanged in any case), and over the in-memory object, which holds one record per key
  by construction.
\<close>

theorem username_unique_key:
  "(reachable_table db \<longrightarrow> length (filter (\<lambda>r. username r = name) (rows db)) \<le> 1)
   \<and> (name \<in> set (map username (rows db)) \<longrightarrow>
        sqlite_post_register h db sess name pw =
          (db, request_flash sess ''danger'' ''Username already exists!'',
           (Redirect ''/register'' :: 'c reply))
        \<and> fst (sequelize_post_register h db sess name pw :: user_table \<times> session \<times> 'c reply) = db
        \<and> (sequelize_table db \<or> CHR 0x00 \<notin> set name \<longrightarrow>
             sequelize_post_register h db sess name pw =
               (db, request_flash sess ''danger'' ''Username already exists!'',
                (Redirect ''/register'' :: 'c reply))))
   \<and> (own store name \<noteq> None \<longrightarrow>
        users_post_register h store sess name pw =
          (store, request_flash sess ''danger'' ''Username already exists!'',
           (Redirect ''/register'' :: 'c reply)))"
proof -
  have a: "reachable_table db \<longrightarrow> length (filter (\<lambda>r. username r = name) (rows db)) \<le> 1"
  proof
    assume "reachable_table db"
    then have "distinct (map username (rows db))" by (rule reachable_table_distinct)
    then show "length (filter (\<lambda>r. username r = name) (rows db)) \<le> 1"
      by (rule distinct_map_filter_le_1)
  qed
  have b: "sqlite_post_register h db sess name pw =
          (db, request_flash sess ''danger'' ''Username already exists!'',
           (Redirect ''/register'' :: 'c reply))"
    if "name \<in> set (map username (rows db))"
    using that select_by_username_None_iff [of db name]
    by (auto simp: sqlite_post_register_def User_findByUsername_def split: option.splits)
  have b1: "sequelize_post_register h db sess name pw =
          (db, request_flash sess ''danger'' ''Username already exists!'',
           (Redirect ''/register'' :: 'c reply))"
    if "name \<in> set (map username (rows db))" and "sequelize_table db \<or> CHR 0x00 \<notin> set name"
  proof -
    from that sequelize_table_names [of db] have "CHR 0x00 \<notin> set name" by auto
    with b [OF that(1)] show ?thesis by (simp add: sequelize_post_register_accepts)
  qed
  have b2: "fst (sequelize_post_register h db sess name pw :: user_table \<times> session \<times> 'c reply) = db"
    if "name \<in> set (map username (rows db))"
  proof (cases "CHR 0x00 \<in> set name")
    case True
    then show ?thesis by (simp add: sequelize_post_register_rejects)
  next
    case False
    with b [OF that] show ?thesis by (simp add: sequelize_post_register_accepts)
  qed
  have c: "users_post_register h store sess name pw =
          (store, request_flash sess ''danger'' ''Username already exists!'',
           (Redirect ''/register'' :: 'c reply))" if "own store name \<noteq> None"
    using that by (auto simp: users_post_register_def js_get_def)
  from a b b1 b2 c show ?thesis by simp
qed

theorem username_unique_key_witness:
  "reachable_table one_user_table \<and> sequelize_table one_user_table
   \<and> length (filter (\<lambda>r. username r = ''alice'') (rows one_user_table)) \<le> 1
   \<and> ''alice'' \<in> set (map username (rows one_user_table))
   \<and> sqlite_post_register toy_hash one_user_table empty_session ''alice'' ''other'' =
        (one_user_table,
         \<lparr>entries = Map.empty, flash = [''danger'' \<mapsto> [''Username already exists!'']]\<rparr>,
         (Redirect ''/register'' :: unit reply))
   \<and> sequelize_post_register toy_hash one_user_table empty_session ''alice'' ''other'' =
        (one_user_table,
         \<lparr>entries = Map.empty, flash = [''danger'' \<mapsto> [''Username already exists!'']]\<rparr>,
         (Redirect ''/register'' :: unit reply))
   \<and> own one_user_object ''alice'' \<noteq> None
   \<and> users_post_register toy_hash one_user_object empty_session ''alice'' ''other'' =
        (one_user_object,
         \<lparr>entries = Map.empty, flash = [''danger'' \<mapsto> [''Username already exists!'']]\<rparr>,
         (Redirect ''/register'' :: unit reply))"
proof -
  have r: "reachable_table one_user_table"
    using sequelize_one_user_table by (rule sequelize_table_reachable)
  have a: "''alice'' \<in> set (map username (rows one_user_table))"
    by (simp add: one_user_table_def alice_row_def)
  have b: "own one_user_object ''alice'' \<noteq> None"
    by (simp add: one_user_object_def)
  have c: "request_flash empty_session ''danger'' ''Username already exists!'' =
      \<lparr>entries = Map.empty, flash = [''danger'' \<mapsto> [''Username already exists!'']]\<rparr>"
    by (simp add: request_flash_def empty_session_def pending_def)
  from r sequelize_one_user_table a b c
    username_unique_key [where db = one_user_table and name = "''alice''" and h = toy_hash
      and sess = empty_session and pw = "''other''" and store = one_user_object
      and ?'c = unit]
  show ?thesis by simp
qed







text \<open>
  A registration under a name for which the lookup finds nothing adds the record of that
  name, over the object and over the table.
\<close>

lemma users_post_register_fresh:
  assumes "\<not> js_truthy (js_get mem_user_props store name)"
  shows "users_post_register h store sess name pw =
           (js_set store name \<lparr>passwordHash = h pw\<rparr>,
            request_flash sess ''success'' ''Registration successful! Please log in.'',
            Redirect ''/login'')"
  using assms by (simp add: users_post_register_def)

lemma sqlite_post_register_fresh:
  assumes "name \<notin> set (map username (rows db))"
  shows "sqlite_post_register h db sess name pw =
           (\<lparr>rows = rows db @ [\<lparr>user_id = Suc (last_id db), username = name,
                                  password_hash = h pw\<rparr>],
              last_id = Suc (last_id db)\<rparr>,
            request_flash sess ''success'' ''Registration successful! Please log in.'',
            Redirect ''/login'')"
  using assms select_by_username_None_iff [of db name]
  by (simp add: sqlite_post_register_def User_findByUsername_def User_create_def
      insert_user_def Let_def)

lemma sequelize_post_register_fresh:
  assumes "name \<notin> set (map username (rows db))" and "CHR 0x00 \<notin> set name"
  shows "sequelize_post_register h db sess name pw =
           (\<lparr>rows = rows db @ [\<lparr>user_id = Suc (last_id db), username = name,
                                  password_hash = h pw\<rparr>],
              last_id = Suc (last_id db)\<rparr>,
            request_flash sess ''success'' ''Registration successful! Please log in.'',
            Redirect ''/login'')"
  using assms by (simp add: sequelize_post_register_accepts sqlite_post_register_fresh)

text \<open>
  C1 asks that a registration whose username is not in the user store adds one record
  and redirects to \<open>/login\<close>. Over the in-memory object the test \<open>fastify.users[username]\<close>
  also finds the properties that every object inherits: the empty store has no user
  \<open>constructor\<close>, and still the registration of that name is turned away with
  "Username already exists!", and the store stays empty.
\<close>

theorem register_inherited_name_rejected:
  "own (empty_object :: mem_user jsobject) ''constructor'' = None
   \<and> users_post_register h empty_object sess ''constructor'' pw =
       (empty_object, request_flash sess ''danger'' ''Username already exists!'',
        Redirect ''/register'')"
  by (simp add: users_post_register_def empty_object_def js_get_def object_prototype_get_def
      object_prototype_names_def)

section \<open>The book catalogue\<close>

text \<open>
  For a book of the catalogue, and for an identifier that is neither in the catalogue nor
  a property name of \<open>Object.prototype\<close>, the route answers as follows.
\<close>

lemma get_book_known:
  assumes "own booksDb bookId = Some b"
  shows "get_book bookId summary =
           (if loose_equals summary ''true''
            then \<lparr>status = 200, payload = TitleAuthor (Some (book_title b)) (Some (book_author b))\<rparr>
            else \<lparr>status = 200, payload = FullRecord b\<rparr>)"
  using assms by (simp add: get_book_def js_get_def)

lemma get_book_unknown:
  assumes "own booksDb bookId = None" and "bookId \<notin> set object_prototype_names"
  shows "get_book bookId summary =
           (if loose_equals summary ''true''
            then \<lparr>status = 404, payload = ErrorBody ''Book not found''\<rparr>
            else \<lparr>status = 200, payload = ErrorBody ''Book not found''\<rparr>)"
  using assms by (simp add: get_book_def js_get_def object_prototype_get_def booksDb_def)

text \<open>
  C10 asks that an identifier that is not in the book store gets "Book not found" (404
  with \<open>summary=true\<close>, 200 otherwise). The lookup \<open>booksDb[bookId]\<close> also finds inherited
  properties: \<open>constructor\<close> is no book, and still the summary request is answered with
  status 200 and an object without title and author, and the plain request with the
  built-in function.
\<close>

theorem book_inherited_name_found:
  "own booksDb ''constructor'' = None
   \<and> get_book ''constructor'' (Some (QSingle ''true'')) =
       \<lparr>status = 200, payload = TitleAuthor None None\<rparr>
   \<and> get_book ''constructor'' None = \<lparr>status = 200, payload = BuiltIn ''constructor''\<rparr>"
  by (simp add: get_book_def booksDb_def js_get_def object_prototype_get_def
      object_prototype_names_def)

section \<open>The contact form\<close>

lemma validate_contactSchema_missing:
  assumes "body ''name'' = None \<or> body ''message'' = None \<or> body ''_csrf'' = None"
  shows "validate contactSchema body \<noteq> []"
  using assms by (auto simp: validate_def contactSchema_def split: option.splits)

lemma validate_contactSchema_name:
  assumes "body ''name'' = Some (Single s)" and "length s < 3 \<or> 25 < length s"
  shows "validate contactSchema body \<noteq> []"
  using assms by (auto simp: validate_def contactSchema_def check_string_def split: option.splits)

lemma validate_contactSchema_message:
  assumes "body ''message'' = Some (Single s)" and "200 < length s"
  shows "validate contactSchema body \<noteq> []"
  using assms by (auto simp: validate_def contactSchema_def check_string_def split: option.splits)

lemma post_contact_csrf_invalid:
  assumes "validate contactSchema body \<noteq> []"
  shows "post_contact_csrf token_of st body =
           (st\<lparr>generated := Suc (generated st)\<rparr>,
            Rendered ''contact_csrf''
              (ErrorsView (validate contactSchema body) (token_of (generated st))))"
  using assms
  by (cases "validate contactSchema body")
     (simp_all add: post_contact_csrf_def errorHandler_def generateCsrf_def)

text \<open>
  The validation of the contact form. A submission to \<open>POST /contact_csrf\<close> whose body
  lacks \<open>name\<close>, \<open>message\<close> or \<open>_csrf\<close>, or whose name has fewer than 3 or more than 25
  characters, or whose message has more than 200 characters, fails the validation and
  never reaches the handler: nothing is logged, and the error handler renders the view
  \<open>contact_csrf\<close> with the validation errors and with the token that \<open>generateCsrf\<close>
  generates for this reply.
\<close>

lemma invalid_contact_rerenders_form:
  "(body ''name'' = None \<or> body ''message'' = None \<or> body ''_csrf'' = None
      \<or> (\<exists>s. body ''name'' = Some (Single s) \<and> (length s < 3 \<or> 25 < length s))
      \<or> (\<exists>s. body ''message'' = Some (Single s) \<and> 200 < length s))
   \<longrightarrow> validate contactSchema body \<noteq> []
     \<and> post_contact_csrf token_of st body =
          (st\<lparr>generated := Suc (generated st)\<rparr>,
           Rendered ''contact_csrf''
             (ErrorsView (validate contactSchema body) (token_of (generated st))))
     \<and> log_lines (fst (post_contact_csrf token_of st body)) = log_lines st
     \<and> generateCsrf token_of st = (token_of (generated st), st\<lparr>generated := Suc (generated st)\<rparr>)"
proof
  assume bad: "body ''name'' = None \<or> body ''message'' = None \<or> body ''_csrf'' = None
      \<or> (\<exists>s. body ''name'' = Some (Single s) \<and> (length s < 3 \<or> 25 < length s))
      \<or> (\<exists>s. body ''message'' = Some (Single s) \<and> 200 < length s)"
  then have invalid: "validate contactSchema body \<noteq> []"
    using validate_contactSchema_missing [of body] validate_contactSchema_name [of body]
      validate_contactSchema_message [of body]
    by blast
  from post_contact_csrf_invalid [OF invalid, of token_of st] invalid
  show "validate contactSchema body \<noteq> []
     \<and> post_contact_csrf token_of st body =
          (st\<lparr>generated := Suc (generated st)\<rparr>,
           Rendered ''contact_csrf''
             (ErrorsView (validate contactSchema body) (token_of (generated st))))
     \<and> log_lines (fst (post_contact_csrf token_of st body)) = log_lines st
     \<and> generateCsrf token_of st = (token_of (generated st), st\<lparr>generated := Suc (generated st)\<rparr>)"
    by (simp add: generateCsrf_def)
qed

lemma invalid_contact_rerenders_form_example:
  "(\<exists>s. [''name'' \<mapsto> Single ''Al'', ''message'' \<mapsto> Single ''hello'', ''_csrf'' \<mapsto> Single ''t'']
          ''name'' = Some (Single s) \<and> (length s < 3 \<or> 25 < length s))
   \<and> post_contact_csrf (\<lambda>n. ''token'' @ string_of_nat n) \<lparr>log_lines = [], generated = 7\<rparr>
        [''name'' \<mapsto> Single ''Al'', ''message'' \<mapsto> Single ''hello'', ''_csrf'' \<mapsto> Single ''t''] =
       (\<lparr>log_lines = [], generated = 8\<rparr>,
        Rendered ''contact_csrf'' (ErrorsView [TooShort ''name'' 3] ''token7''))"
proof -
  let ?body = "[''name'' \<mapsto> Single ''Al'', ''message'' \<mapsto> Single ''hello'', ''_csrf'' \<mapsto> Single ''t'']"
  have a: "\<exists>s. ?body ''name'' = Some (Single s) \<and> (length s < 3 \<or> 25 < length s)"
    by simp
  have b: "validate contactSchema ?body = [TooShort ''name'' 3]"
    by (simp add: validate_def contactSchema_def check_string_def)
  have c: "string_of_nat 7 = ''7''"
    by code_simp
  from a b c
    invalid_contact_rerenders_form [where body = ?body and st = "\<lparr>log_lines = [], generated = 7\<rparr>"
      and token_of = "\<lambda>n. ''token'' @ string_of_nat n"]
  show ?thesis by simp
qed

text \<open>A valid submission reaches the handler, which logs it.\<close>

lemma post_contact_csrf_valid:
  assumes "validate contactSchema body = []"
  shows "post_contact_csrf token_of st body = contact_csrf_handler token_of st body"
  using assms by (simp add: post_contact_csrf_def)

text \<open>
  The token of a submission is only required to be a string: the answer of the route is
  the same for any two values of \<open>_csrf\<close>.
\<close>

lemma validate_ignores_token:
  "validate contactSchema (b(''_csrf'' \<mapsto> Single t)) =
   validate contactSchema (b(''_csrf'' \<mapsto> Single t'))"
  by (simp add: validate_def contactSchema_def check_string_def split: option.splits)

lemma post_contact_csrf_ignores_token:
  "post_contact_csrf token_of st (b(''_csrf'' \<mapsto> Single t)) =
   post_contact_csrf token_of st (b(''_csrf'' \<mapsto> Single t'))"
proof -
  have "contact_csrf_handler token_of st (b(''_csrf'' \<mapsto> Single t)) =
        contact_csrf_handler token_of st (b(''_csrf'' \<mapsto> Single t'))"
    by (simp add: contact_csrf_handler_def)
  then show ?thesis
    unfolding post_contact_csrf_def validate_ignores_token [of b t t']
    by (simp split: list.splits)
qed

text \<open>
  C6 asks, with the validation of the form, that a mutating request is accepted only
  with a CSRF token, a value that the server verifies. The route \<open>POST /contact_csrf\<close>
  checks the schema and nothing else: no hook of it verifies the token. On a server
  that has generated no token at all, a submission whose \<open>_csrf\<close> is the empty string
  passes the validation, reaches the handler and is logged.
\<close>

theorem contact_accepts_unverified_token:
  "validate contactSchema
     [''name'' \<mapsto> Single ''Alice'', ''message'' \<mapsto> Single ''hello'', ''_csrf'' \<mapsto> Single []] = []
   \<and> post_contact_csrf token_of \<lparr>log_lines = [], generated = 0\<rparr>
       [''name'' \<mapsto> Single ''Alice'', ''message'' \<mapsto> Single ''hello'', ''_csrf'' \<mapsto> Single []] =
       (\<lparr>log_lines = [''Received from Alice: hello''], generated = 1\<rparr>,
        Rendered ''contact_csrf'' (SubmittedView ''Alice'' (token_of 0)))"
  by (simp add: post_contact_csrf_def validate_def contactSchema_def check_string_def
      contact_csrf_handler_def generateCsrf_def)

section \<open>Pages\<close>

lemma js_get_js_set_same: "js_get props (js_set obj k r) k = JSRecord r"
  by (cases "k = ''__proto__'' \<and> own obj k = None") (auto simp: js_get_def js_set_def)

lemma own_js_set_other: "k' \<noteq> k \<Longrightarrow> own (js_set obj k r) k' = own obj k'"
  by (simp add: js_set_def)

lemma js_get_record_cases:
  assumes "js_get props obj k = JSRecord r"
  shows "own obj k = Some r \<or> (k = ''__proto__'' \<and> own obj k = None \<and> proto obj = Some r)"
proof (cases "own obj k")
  case (Some a)
  with assms show ?thesis by (simp add: js_get_def)
next
  case None
  note own_none = None
  show ?thesis
  proof (cases "proto obj")
    case None
    with own_none assms show ?thesis
      by (simp add: js_get_def object_prototype_get_def split: if_splits)
  next
    case (Some p)
    with own_none assms show ?thesis
      by (cases "k = ''__proto__''")
         (simp_all add: js_get_def object_prototype_get_def split: option.splits if_splits)
  qed
qed

lemma js_get_js_set_record:
  assumes "k' \<noteq> k" and "js_get props obj k' = JSRecord r'"
  shows "js_get props (js_set obj k r) k' = JSRecord r'"
  using js_get_record_cases [OF assms(2)]
proof (elim disjE conjE)
  assume "own obj k' = Some r'"
  with assms(1) show ?thesis by (simp add: js_get_def js_set_def)
next
  assume "k' = ''__proto__''" "own obj k' = None" "proto obj = Some r'"
  with assms(1) show ?thesis by (simp add: js_get_def js_set_def)
qed

lemma reply_redirect_wiki:
  "reply_redirect (''/wiki/'' @ title) =
     (if list_all header_char_ok title then Redirect (''/wiki/'' @ title)
      else ServerError (InvalidChar (''/wiki/'' @ title)))"
proof -
  have "list_all header_char_ok ''/wiki/''"
    by (simp add: header_char_ok_def)
  then show ?thesis
    by (simp add: reply_redirect_def)
qed

text \<open>
  C7 asks that \<open>POST /create\<close> stores the new record under its title and leaves every
  earlier page record unchanged, the one under the same title included. The assignment
  \<open>pages[title] = ...\<close> overwrites: bob's request for the existing title \<open>Home\<close> replaces
  alice's page.
\<close>

theorem post_create_overwrites_page:
  "session_get bob_session ''username'' = Some (PStr ''bob'')
   \<and> js_get page_props (pages one_page_store) ''Home'' = JSRecord home_page
   \<and> js_get page_props (pages (fst (wiki_post_create one_page_store bob_session ''Home'' ''new'')))
         ''Home''
       = JSRecord \<lparr>content = ''new'', author = PStr ''bob'', html_content = None\<rparr>
   \<and> js_get page_props (pages (fst (wiki_post_create one_page_store bob_session ''Home'' ''new'')))
         ''Home''
       \<noteq> js_get page_props (pages one_page_store) ''Home''"
  by (simp add: wiki_post_create_def bob_session_def session_get_def one_page_store_def
      js_get_def js_set_def home_page_def)

text \<open>
  C7, as the code has it. For a logged-in \<open>POST /create\<close> with title \<open>t\<close> and content \<open>c\<close>,
  reading \<open>t\<close> in the pages store afterwards gives the record with content \<open>c\<close> and the
  session's username as author, and every page record found under another title before
  is found there unchanged afterwards; the own properties of other titles and the user
  store are as before. The reply is the redirect to \<open>/wiki/t\<close>, or the error of a
  \<open>location\<close> header that refuses a control character of \<open>t\<close>; the page is stored in
  both cases.
\<close>

theorem post_create_stores_page:
  "session_get sess ''username'' = Some name \<and> prim_truthy name \<longrightarrow>
     wiki_post_create st sess title content' =
       (st\<lparr>pages := js_set (pages st) title
                        \<lparr>content = content', author = name, html_content = None\<rparr>\<rparr>,
        sess,
        if list_all header_char_ok title then Redirect (''/wiki/'' @ title)
        else ServerError (InvalidChar (''/wiki/'' @ title)))
     \<and> js_get page_props (pages (fst (wiki_post_create st sess title content'))) title =
         JSRecord \<lparr>content = content', author = name, html_content = None\<rparr>
     \<and> (\<forall>t p. t \<noteq> title \<and> js_get page_props (pages st) t = JSRecord p \<longrightarrow>
           js_get page_props (pages (fst (wiki_post_create st sess title content'))) t = JSRecord p)
     \<and> (\<forall>t. t \<noteq> title \<longrightarrow>
           own (pages (fst (wiki_post_create st sess title content'))) t = own (pages st) t)
     \<and> users (fst (wiki_post_create st sess title content')) = users st"
proof
  assume "session_get sess ''username'' = Some name \<and> prim_truthy name"
  then have eq: "wiki_post_create st sess title content' =
       (st\<lparr>pages := js_set (pages st) title
                        \<lparr>content = content', author = name, html_content = None\<rparr>\<rparr>,
        sess,
        if list_all header_char_ok title then Redirect (''/wiki/'' @ title)
        else ServerError (InvalidChar (''/wiki/'' @ title)))"
    by (simp only: wiki_post_create_def reply_redirect_wiki option.case if_False simp_thms)
  show "wiki_post_create st sess title content' =
       (st\<lparr>pages := js_set (pages st) title
                        \<lparr>content = content', author = name, html_content = None\<rparr>\<rparr>,
        sess,
        if list_all header_char_ok title then Redirect (''/wiki/'' @ title)
        else ServerError (InvalidChar (''/wiki/'' @ title)))
     \<and> js_get page_props (pages (fst (wiki_post_create st sess title content'))) title =
         JSRecord \<lparr>content = content', author = name, html_content = None\<rparr>
     \<and> (\<forall>t p. t \<noteq> title \<and> js_get page_props (pages st) t = JSRecord p \<longrightarrow>
           js_get page_props (pages (fst (wiki_post_create st sess title content'))) t = JSRecord p)
     \<and> (\<forall>t. t \<noteq> title \<longrightarrow>
           own (pages (fst (wiki_post_create st sess title content'))) t = own (pages st) t)
     \<and> users (fst (wiki_post_create st sess title content')) = users st"
    unfolding eq
    by (simp add: js_get_js_set_same own_js_set_other js_get_js_set_record)
qed

theorem post_create_stores_page_witness:
  "session_get bob_session ''username'' = Some (PStr ''bob'') \<and> prim_truthy (PStr ''bob'')
   \<and> ''Home'' \<noteq> ''News''
   \<and> js_get page_props (pages one_page_store) ''Home'' = JSRecord home_page
   \<and> js_get page_props
        (pages (fst (wiki_post_create one_page_store bob_session ''News'' ''text''))) ''News'' =
       JSRecord \<lparr>content = ''text'', author = PStr ''bob'', html_content = None\<rparr>
   \<and> js_get page_props
        (pages (fst (wiki_post_create one_page_store bob_session ''News'' ''text''))) ''Home'' =
       JSRecord home_page"
proof -
  have a: "session_get bob_session ''username'' = Some (PStr ''bob'') \<and> prim_truthy (PStr ''bob'')"
    by (simp add: bob_session_def session_get_def)
  have b: "js_get page_props (pages one_page_store) ''Home'' = JSRecord home_page"
    by (simp add: one_page_store_def js_get_def)
  have c: "''Home'' \<noteq> ''News''" by simp
  have d: "js_get page_props
        (pages (fst (wiki_post_create one_page_store bob_session ''News'' ''text''))) ''News'' =
       JSRecord \<lparr>content = ''text'', author = PStr ''bob'', html_content = None\<rparr>"
    using a
      post_create_stores_page [where sess = bob_session and name = "PStr ''bob''"
        and st = one_page_store and title = "''News''" and content' = "''text''"]
    by (elim impE conjE) simp_all
  have e: "js_get page_props
        (pages (fst (wiki_post_create one_page_store bob_session ''News'' ''text''))) ''Home'' =
       JSRecord home_page"
    using a b c
      post_create_stores_page [where sess = bob_session and name = "PStr ''bob''"
        and st = one_page_store and title = "''News''" and content' = "''text''"]
    by (elim impE conjE allE [where x = "''Home''"] allE [where x = home_page]) simp_all
  from a b c d e show ?thesis by simp
qed

text \<open>
  A title with a line feed: the page is stored, and the request ends in the error of the
  refused header instead of the redirect.
\<close>

lemma post_create_control_character:
  "own (pages (fst (wiki_post_create one_page_store bob_session [CHR 0x0A] ''text'')))
       [CHR 0x0A]
     = Some \<lparr>content = ''text'', author = PStr ''bob'', html_content = None\<rparr>
   \<and> snd (snd (wiki_post_create one_page_store bob_session [CHR 0x0A] ''text''))
     = ServerError (InvalidChar (''/wiki/'' @ [CHR 0x0A]))"
  by (simp add: wiki_post_create_def bob_session_def session_get_def one_page_store_def
      js_set_def reply_redirect_def header_char_ok_def)

text \<open>\<open>POST /share\<close> appends the quote and keeps the earlier ones.\<close>

lemma post_share_appends:
  "fst (fst (post_share (QuotesDB, lg) a q)) = QuotesDB @ [\<lparr>quote_author = a, quote = q\<rparr>]"
  by (simp add: post_share_def)

section \<open>Avatars\<close>

lemma js_update_own:
  assumes "own obj k = Some r"
  shows "js_update props obj k f = Inr (obj\<lparr>own := (own obj)(k \<mapsto> f r)\<rparr>)"
  using assms by (simp add: js_update_def)

lemma wiki_post_profile_no_file:
  assumes "session_get sess ''username'' = Some (PStr u)" and "u \<noteq> []"
  shows "wiki_post_profile now write_ok st sess None =
           (st, request_flash sess ''danger'' ''No file selected.'', Redirect ''/profile'')"
  using assms by (simp add: wiki_post_profile_def)

lemma wiki_post_profile_disallowed:
  assumes "session_get sess ''username'' = Some (PStr u)" and "u \<noteq> []"
    and "allowedFile (filename f) = Inr False"
  shows "wiki_post_profile now write_ok st sess (Some f) =
           (st, request_flash sess ''danger'' ''Invalid file type. Allowed: png, jpg, jpeg, gif.'',
            Redirect ''/profile'')"
  using assms by (simp add: wiki_post_profile_def)

lemma wiki_post_profile_allowed:
  assumes "session_get sess ''username'' = Some (PStr u)" and "u \<noteq> []"
    and "own (users st) u = Some r"
    and "allowedFile (filename f) = Inr True"
  shows "wiki_post_profile now write_ok st sess (Some f) =
           (if write_ok
            then (st\<lparr>uploads := uploads st @ [(string_of_nat now @ ''_'' @ filename f, buf f)],
                     users := (users st)\<lparr>own := (own (users st))
                                (u \<mapsto> r\<lparr>avatar := Some (string_of_nat now @ ''_'' @ filename f)\<rparr>)\<rparr>\<rparr>,
                  request_flash sess ''success'' ''Avatar updated!'', Redirect ''/profile'')
            else (st, sess, ServerError (WriteError (string_of_nat now @ ''_'' @ filename f))))"
  using assms by (simp add: wiki_post_profile_def Let_def js_update_own)

text \<open>
  C8. A user record is changed only to set its avatar. For \<open>POST /profile\<close> by a
  logged-in user (the session's username has a record in the user store): with a file
  whose name passes \<open>allowedFile\<close>, the user's record keeps its password hash and gets the
  new avatar name (once the file is written), every other user record and the pages are
  as before; with a file of a disallowed name, or with no file, the store is as before
  and the reply redirects to \<open>/profile\<close> with a danger message.
\<close>

theorem avatar_upload_frame:
  "session_get sess ''username'' = Some (PStr u) \<and> u \<noteq> [] \<and> own (users st) u = Some r \<longrightarrow>
     (allowedFile (filename f) = Inr True \<longrightarrow>
        (\<exists>r'. own (users (fst (wiki_post_profile now write_ok st sess (Some f)))) u = Some r'
              \<and> password r' = password r
              \<and> (write_ok \<longrightarrow> avatar r' = Some (string_of_nat now @ ''_'' @ filename f)))
        \<and> (\<forall>u'. u' \<noteq> u \<longrightarrow>
              own (users (fst (wiki_post_profile now write_ok st sess (Some f)))) u'
                = own (users st) u')
        \<and> proto (users (fst (wiki_post_profile now write_ok st sess (Some f)))) = proto (users st)
        \<and> pages (fst (wiki_post_profile now write_ok st sess (Some f))) = pages st)
     \<and> (allowedFile (filename f) = Inr False \<longrightarrow>
          wiki_post_profile now write_ok st sess (Some f) =
            (st, request_flash sess ''danger''
                   ''Invalid file type. Allowed: png, jpg, jpeg, gif.'',
             Redirect ''/profile''))
     \<and> wiki_post_profile now write_ok st sess None =
          (st, request_flash sess ''danger'' ''No file selected.'', Redirect ''/profile'')"
proof
  assume h: "session_get sess ''username'' = Some (PStr u) \<and> u \<noteq> [] \<and> own (users st) u = Some r"
  then have s: "session_get sess ''username'' = Some (PStr u)" and u: "u \<noteq> []"
    and r: "own (users st) u = Some r"
    by simp_all
  have allowed: "(\<exists>r'. own (users (fst (wiki_post_profile now write_ok st sess (Some f)))) u = Some r'
              \<and> password r' = password r
              \<and> (write_ok \<longrightarrow> avatar r' = Some (string_of_nat now @ ''_'' @ filename f)))
        \<and> (\<forall>u'. u' \<noteq> u \<longrightarrow>
              own (users (fst (wiki_post_profile now write_ok st sess (Some f)))) u'
                = own (users st) u')
        \<and> proto (users (fst (wiki_post_profile now write_ok st sess (Some f)))) = proto (users st)
        \<and> pages (fst (wiki_post_profile now write_ok st sess (Some f))) = pages st"
    if "allowedFile (filename f) = Inr True"
    unfolding wiki_post_profile_allowed [OF s u r that]
    using r by (cases write_ok) simp_all
  from allowed wiki_post_profile_disallowed [OF s u] wiki_post_profile_no_file [OF s u]
  show "(allowedFile (filename f) = Inr True \<longrightarrow>
        (\<exists>r'. own (users (fst (wiki_post_profile now write_ok st sess (Some f)))) u = Some r'
              \<and> password r' = password r
              \<and> (write_ok \<longrightarrow> avatar r' = Some (string_of_nat now @ ''_'' @ filename f)))
        \<and> (\<forall>u'. u' \<noteq> u \<longrightarrow>
              own (users (fst (wiki_post_profile now write_ok st sess (Some f)))) u'
                = own (users st) u')
        \<and> proto (users (fst (wiki_post_profile now write_ok st sess (Some f)))) = proto (users st)
        \<and> pages (fst (wiki_post_profile now write_ok st sess (Some f))) = pages st)
     \<and> (allowedFile (filename f) = Inr False \<longrightarrow>
          wiki_post_profile now write_ok st sess (Some f) =
            (st, request_flash sess ''danger''
                   ''Invalid file type. Allowed: png, jpg, jpeg, gif.'',
             Redirect ''/profile''))
     \<and> wiki_post_profile now write_ok st sess None =
          (st, request_flash sess ''danger'' ''No file selected.'', Redirect ''/profile'')"
    by simp
qed
theorem avatar_upload_frame_witness:
  "session_get alice_session ''username'' = Some (PStr ''alice'') \<and> ''alice'' \<noteq> []
   \<and> own (users wiki_with_alice) ''alice'' = Some alice_user
   \<and> allowedFile (filename cat_picture) = Inr True
   \<and> (\<exists>r'. own (users (fst (wiki_post_profile 17 True wiki_with_alice alice_session
                                (Some cat_picture)))) ''alice'' = Some r'
          \<and> password r' = toy_hash ''secret'' \<and> avatar r' = Some ''17_cat.PNG'')
   \<and> pages (fst (wiki_post_profile 17 True wiki_with_alice alice_session (Some cat_picture)))
       = pages wiki_with_alice
   \<and> ''bob'' \<noteq> ''alice''
   \<and> own (users (fst (wiki_post_profile 17 True wiki_with_alice alice_session
                         (Some cat_picture)))) ''bob'' = None
   \<and> allowedFile (filename notes_file) = Inr False
   \<and> wiki_post_profile 17 True wiki_with_alice alice_session (Some notes_file) =
       (wiki_with_alice,
        \<lparr>entries = [''username'' \<mapsto> PStr ''alice''],
           flash = [''danger'' \<mapsto> [''Invalid file type. Allowed: png, jpg, jpeg, gif.'']]\<rparr>,
        Redirect ''/profile'')"
proof -
  have a: "session_get alice_session ''username'' = Some (PStr ''alice'') \<and> ''alice'' \<noteq> []
      \<and> own (users wiki_with_alice) ''alice'' = Some alice_user"
    by (simp add: alice_session_def session_get_def wiki_with_alice_def)
  have b: "allowedFile (filename cat_picture) = Inr True"
    unfolding cat_picture_def by code_simp
  have c: "allowedFile (filename notes_file) = Inr False"
    unfolding notes_file_def by code_simp
  have d: "string_of_nat 17 @ ''_'' @ filename cat_picture = ''17_cat.PNG''"
    unfolding cat_picture_def by code_simp
  have e: "''bob'' \<noteq> ''alice''" by simp
  have f: "own (users wiki_with_alice) ''bob'' = None"
    by (simp add: wiki_with_alice_def)
  have g: "password alice_user = toy_hash ''secret''"
    by (simp add: alice_user_def)
  have h: "request_flash alice_session ''danger''
             ''Invalid file type. Allowed: png, jpg, jpeg, gif.'' =
        \<lparr>entries = [''username'' \<mapsto> PStr ''alice''],
           flash = [''danger'' \<mapsto> [''Invalid file type. Allowed: png, jpg, jpeg, gif.'']]\<rparr>"
    by (simp add: request_flash_def alice_session_def pending_def)
  note t1 = avatar_upload_frame [where sess = alice_session and u = "''alice''"
      and st = wiki_with_alice and r = alice_user and f = cat_picture and now = 17
      and write_ok = True]
  note t2 = avatar_upload_frame [where sess = alice_session and u = "''alice''"
      and st = wiki_with_alice and r = alice_user and f = notes_file and now = 17
      and write_ok = True]
  have p1: "(\<exists>r'. own (users (fst (wiki_post_profile 17 True wiki_with_alice alice_session
                                (Some cat_picture)))) ''alice'' = Some r'
          \<and> password r' = toy_hash ''secret'' \<and> avatar r' = Some ''17_cat.PNG'')"
    using t1 a b d g by simp
  have p2: "pages (fst (wiki_post_profile 17 True wiki_with_alice alice_session (Some cat_picture)))
       = pages wiki_with_alice"
    using t1 a b by simp
  have p3: "own (users (fst (wiki_post_profile 17 True wiki_with_alice alice_session
                         (Some cat_picture)))) ''bob'' = None"
    using t1 a b e f by simp
  have p4: "wiki_post_profile 17 True wiki_with_alice alice_session (Some notes_file) =
       (wiki_with_alice,
        \<lparr>entries = [''username'' \<mapsto> PStr ''alice''],
           flash = [''danger'' \<mapsto> [''Invalid file type. Allowed: png, jpg, jpeg, gif.'']]\<rparr>,
        Redirect ''/profile'')"
    using t2 a c h by simp
  from a b c e p1 p2 p3 p4 show ?thesis by simp
qed

end
